theory Spec2Isabelle
  imports Main "HOL-Library.Sublist"
begin

section \<open>Strings and numbers of the front end\<close>

text \<open>
  A JavaScript string is a sequence of UTF-16 code units. The model uses \<open>string\<close>; a
  \<open>char\<close> stands for a code unit below 256, which covers every literal of the sources.
  \<open>String.prototype.trim\<close> removes the white space and line terminator code units from
  both ends; below 256 these are U+0009 .. U+000D, U+0020 and U+00A0.
\<close>

definition isWhiteSpace :: "char \<Rightarrow> bool" where
  "isWhiteSpace c \<longleftrightarrow>
     c = CHR 0x09 \<or> c = CHR 0x0A \<or> c = CHR 0x0B \<or> c = CHR 0x0C \<or> c = CHR 0x0D \<or>
     c = CHR 0x20 \<or> c = CHR 0xA0"

definition trim :: "string \<Rightarrow> string" where
  "trim s = rev (dropWhile isWhiteSpace (rev (dropWhile isWhiteSpace s)))"

text \<open>\<open>s.endsWith(t)\<close>.\<close>

definition endsWith :: "string \<Rightarrow> string \<Rightarrow> bool" where
  "endsWith s t \<longleftrightarrow> length t \<le> length s \<and> drop (length s - length t) s = t"

text \<open>
  \<open>s.replace(pat, rep)\<close> with a string pattern: only the first occurrence of \<open>pat\<close> is
  replaced. The replacement is taken literally (the only call of the sources passes the
  empty string, which has no \<open>$\<close> pattern).
\<close>

fun replace :: "string \<Rightarrow> string \<Rightarrow> string \<Rightarrow> string" where
  "replace pat rep [] = (if pat = [] then rep else [])"
| "replace pat rep (c # cs) =
     (if prefix pat (c # cs) then rep @ drop (length pat) (c # cs)
      else c # replace pat rep cs)"

text \<open>Truthiness of a value of type \<open>string | null\<close>: \<open>null\<close> and \<open>''\<close> are falsy.\<close>

definition truthy :: "string option \<Rightarrow> bool" where
  "truthy v = (case v of None \<Rightarrow> False | Some s \<Rightarrow> s \<noteq> [])"

text \<open>\<open>n.toString()\<close> for a non-negative integer: its decimal digits.\<close>

definition digit :: "nat \<Rightarrow> char" where
  "digit d = char_of (48 + d)"

function toString :: "nat \<Rightarrow> string" where
  "toString n = (if n < 10 then [digit n] else toString (n div 10) @ [digit (n mod 10)])"
  by pat_completeness auto
termination
  by (relation "measure (\<lambda>n. n)") auto

declare toString.simps [simp del]

text \<open>
  A JavaScript number is an IEEE double. The numbers of the model are whole: a token
  count is held as the integer it is, and \<open>a + b\<close> is the exact sum rounded to the
  nearest double, ties to the even significand. \<open>ulpOf m\<close> is the distance between the
  doubles around a magnitude \<open>m\<close>: 1 below 2^53 = 9007199254740992, doubling with every
  further bit. Fractions, \<open>NaN\<close> and the infinities, which the type \<open>number\<close> also
  has, are outside the model; so is a sum of magnitude 2^1024 or more, which is
  \<open>Infinity\<close> in the code.
\<close>

function ulpOf :: "int \<Rightarrow> int" where
  "ulpOf m = (if m < 9007199254740992 then 1 else 2 * ulpOf (m div 2))"
  by pat_completeness auto
termination
  by (relation "measure nat") auto

declare ulpOf.simps [simp del]

definition roundDouble :: "int \<Rightarrow> int" where
  "roundDouble n =
     (let m = \<bar>n\<bar>; u = ulpOf m; q = m div u; r = m mod u;
          q' = (if 2 * r > u \<or> (2 * r = u \<and> odd q) then q + 1 else q)
      in sgn n * (q' * u))"

definition jsAdd :: "int \<Rightarrow> int \<Rightarrow> int" where
  "jsAdd a b = roundDouble (a + b)"

text \<open>The integers up to which every sum is exact: magnitude at most 2^53.\<close>

definition exactRange :: "int \<Rightarrow> bool" where
  "exactRange n \<longleftrightarrow> \<bar>n\<bar> \<le> 9007199254740992"

text \<open>
  The two readings of the clock a handler takes: \<open>Date.now()\<close>, a count of
  milliseconds far below 2^53 (so that \<open>Date.now() + 1\<close> is exact), and
  \<open>new Date().toISOString()\<close>.
\<close>

record clock =
  now :: nat
  toISOString :: string

section \<open>The chat interface (src/frontend/src/pages/ChatInterface.tsx)\<close>

text \<open>
  Records keep the field names of the interfaces. Where two interfaces share a field name,
  or a name is taken in HOL, the later record carries a suffix: \<open>id_m\<close>,
  \<open>tokens_used_m\<close> (of a message), \<open>sources_st\<close>, \<open>message_st\<close> (of a component
  state), \<open>id_d\<close>, \<open>content_d\<close>, \<open>created_at_d\<close> (of a document).
\<close>

datatype role = User | Assistant

text \<open>\<open>interface Message\<close>; \<open>tokens_used\<close> is optional.\<close>

record Message =
  id_m :: string
  content :: string
  role :: role
  created_at :: string
  tokens_used_m :: "int option"

text \<open>\<open>interface ChatResponse\<close>, the value \<open>chatAPI.sendMessage\<close> resolves to.\<close>

record ChatResponse =
  message :: string
  chat_id :: string
  sources :: "string list"
  tokens_used :: int

text \<open>The state of the component, one field per \<open>useState\<close>.\<close>

record ChatInterface =
  messages :: "Message list"
  inputMessage :: string
  isLoading :: bool
  currentChatId :: "string option"
  sources_st :: "string list"
  totalTokens :: int

definition initialChat :: ChatInterface where
  "initialChat =
     \<lparr>messages = [], inputMessage = [], isLoading = False, currentChatId = None,
      sources_st = [], totalTokens = 0\<rparr>"

text \<open>
  \<open>chatAPI.sendMessage(message, chatId?)\<close> posts \<open>{message, chat_id}\<close> to \<open>/api/chat/\<close> and
  resolves to the response body or rejects. The server is not part of the sources, so the
  call is a parameter of the handler: \<open>Inr\<close> a response, \<open>Inl\<close> the rejection.
\<close>

type_synonym 'e sendMessage = "string \<Rightarrow> string option \<Rightarrow> 'e + ChatResponse"

text \<open>The guard in the first line of \<open>handleSendMessage\<close> (and of the send button).\<close>

definition blocked :: "ChatInterface \<Rightarrow> bool" where
  "blocked st \<longleftrightarrow> trim (inputMessage st) = [] \<or> isLoading st"

text \<open>The argument \<open>currentChatId || undefined\<close>.\<close>

definition chatIdArg :: "ChatInterface \<Rightarrow> string option" where
  "chatIdArg st = (if truthy (currentChatId st) then currentChatId st else None)"

definition userMsg :: "clock \<Rightarrow> string \<Rightarrow> Message" where
  "userMsg t userMessage =
     \<lparr>id_m = toString (now t), content = userMessage, role = User,
      created_at = toISOString t, tokens_used_m = None\<rparr>"

definition assistantMsg :: "clock \<Rightarrow> ChatResponse \<Rightarrow> Message" where
  "assistantMsg t response =
     \<lparr>id_m = toString (now t + 1), content = message response, role = Assistant,
      created_at = toISOString t, tokens_used_m = Some (tokens_used response)\<rparr>"

definition errorMsg :: "clock \<Rightarrow> Message" where
  "errorMsg t =
     \<lparr>id_m = toString (now t + 1),
      content = ''Sorry, I encountered an error. Please try again.'', role = Assistant,
      created_at = toISOString t, tokens_used_m = None\<rparr>"

text \<open>The part of \<open>handleSendMessage\<close> before the \<open>await\<close>.\<close>

definition sendStart :: "clock \<Rightarrow> ChatInterface \<Rightarrow> ChatInterface" where
  "sendStart t st =
     st\<lparr>inputMessage := [],
        messages := messages st @ [userMsg t (trim (inputMessage st))],
        isLoading := True\<rparr>"

text \<open>
  The part after the \<open>await\<close>: the \<open>try\<close> body on a response, the \<open>catch\<close> body on a
  rejection, then \<open>finally\<close>. \<open>held\<close> is the \<open>currentChatId\<close> the handler closed over.
\<close>

definition sendSettle ::
  "string option \<Rightarrow> clock \<Rightarrow> 'e + ChatResponse \<Rightarrow> ChatInterface \<Rightarrow> ChatInterface" where
  "sendSettle held t outcome st =
     (case outcome of
        Inr response \<Rightarrow>
          st\<lparr>currentChatId :=
                (if \<not> truthy held then Some (chat_id response) else currentChatId st),
             messages := messages st @ [assistantMsg t response],
             sources_st := sources response,
             totalTokens := jsAdd (totalTokens st) (tokens_used response),
             isLoading := False\<rparr>
      | Inl error \<Rightarrow>
          st\<lparr>messages := messages st @ [errorMsg t], isLoading := False\<rparr>)"

text \<open>
  \<open>handleSendMessage\<close>, run to completion with no other event in between. The result is
  the new state and the list of requests handed to \<open>chatAPI.sendMessage\<close>.
\<close>

definition handleSendMessage ::
  "'e sendMessage \<Rightarrow> clock \<Rightarrow> clock \<Rightarrow> ChatInterface \<Rightarrow>
     ChatInterface \<times> (string \<times> string option) list" where
  "handleSendMessage sendMessage ts te st =
     (if blocked st then (st, [])
      else
        let userMessage = trim (inputMessage st);
            chatId = chatIdArg st
        in (sendSettle (currentChatId st) te (sendMessage userMessage chatId) (sendStart ts st),
            [(userMessage, chatId)]))"

text \<open>\<open>clearChat\<close>; \<open>confirmed\<close> is the answer of \<open>window.confirm\<close>.\<close>

definition clearChat :: "bool \<Rightarrow> ChatInterface \<Rightarrow> ChatInterface" where
  "clearChat confirmed st =
     (if confirmed
      then st\<lparr>messages := [], sources_st := [], totalTokens := 0, currentChatId := None\<rparr>
      else st)"

text \<open>
  The token count a message contributes: its \<open>tokens_used\<close> when it is an assistant
  message that has one.
\<close>

definition assistantTokens :: "Message list \<Rightarrow> int" where
  "assistantTokens ms =
     sum_list (map (\<lambda>m. case tokens_used_m m of None \<Rightarrow> 0 | Some n \<Rightarrow> n)
                   (filter (\<lambda>m. role m = Assistant) ms))"

section \<open>The document upload interface (DocumentUpload, in src/frontend/src/types/index.ts)\<close>

text \<open>What the handler reads of a browser \<open>File\<close>.\<close>

record File =
  name :: string
  type :: string

datatype messageType = success | error

record Document =
  id_d :: string
  title :: string
  content_d :: string
  source :: string
  created_at_d :: string
  chunk_count :: nat

datatype tab = upload | paste

record DocumentUpload =
  activeTab :: tab
  documents :: "Document list"
  loading :: bool
  uploading :: bool
  message_st :: "(messageType \<times> string) option"
  selectedFile :: "File option"
  customTitle :: string
  pasteTitle :: string
  pasteContent :: string

text \<open>\<open>showMessage\<close> sets the banner (the timer that hides it later is not modelled).\<close>

definition showMessage :: "messageType \<Rightarrow> string \<Rightarrow> DocumentUpload \<Rightarrow> DocumentUpload" where
  "showMessage ty txt st = st\<lparr>message_st := Some (ty, txt)\<rparr>"

text \<open>The test \<open>file.type === 'text/plain' || file.name.endsWith('.txt')\<close>.\<close>

definition accepted :: "File \<Rightarrow> bool" where
  "accepted file \<longleftrightarrow> type file = ''text/plain'' \<or> endsWith (name file) ''.txt''"

text \<open>\<open>handleFileSelect\<close>; \<open>files\<close> is \<open>event.target.files\<close> (empty when there is none).\<close>

definition handleFileSelect :: "File list \<Rightarrow> DocumentUpload \<Rightarrow> DocumentUpload" where
  "handleFileSelect files st =
     (case files of
        [] \<Rightarrow> st
      | file # _ \<Rightarrow>
          if accepted file
          then st\<lparr>selectedFile := Some file, customTitle := replace ''.txt'' [] (name file)\<rparr>
          else showMessage error ''Please select a .txt file'' st)"

section \<open>The chunker\<close>

text \<open>
  Modelled from the spec: the error taxonomy of section 7. The retrieval core (chunker,
  vector store, orchestrator) is not among the sources; only its configuration and its
  HTTP client are.
\<close>

datatype core_error =
  InvalidConfig | EmbeddingUnavailable | GenerationFailed | EmptyIndex | SessionNotFound |
  DuplicateID

text \<open>
  Modelled from the spec: the fixed-size overlapping units of section 4.1, for a text
  that is not empty: a text of at most \<open>S\<close> units is one chunk equal to the whole text;
  a longer one gives its first \<open>S\<close> units, and the chunks of the text from unit \<open>S - O\<close>
  on, so that the last \<open>O\<close> units of a chunk are the first \<open>O\<close> of the next.
\<close>

function windows :: "nat \<Rightarrow> nat \<Rightarrow> string \<Rightarrow> string list" where
  "windows S Ov doc =
     (if S \<le> Ov \<or> length doc \<le> S then [doc]
      else take S doc # windows S Ov (drop (S - Ov) doc))"
  by pat_completeness auto
termination
  by (relation "measure (\<lambda>(S, Ov, doc). length doc)") auto

declare windows.simps [simp del]

text \<open>
  Modelled from the spec: the Chunker of section 4.1. It fails with \<open>InvalidConfig\<close> when
  \<open>O \<ge> S\<close> or \<open>S \<le> 0\<close>. For the empty text the section's two sentences disagree (a
  sequence of non-empty chunks; one chunk equal to the whole text): the model follows the
  contract of non-empty chunks and yields no chunk.
\<close>

definition chunk :: "nat \<Rightarrow> nat \<Rightarrow> string \<Rightarrow> core_error + string list" where
  "chunk S Ov doc =
     (if Ov \<ge> S \<or> S \<le> 0 then Inl InvalidConfig
      else if doc = [] then Inr []
      else Inr (windows S Ov doc))"

text \<open>
  Modelled from the spec: reassembly, "concatenating chunks with overlaps removed": the
  first chunk, then every later chunk without its first \<open>O\<close> units.
\<close>

definition reassemble :: "nat \<Rightarrow> string list \<Rightarrow> string" where
  "reassemble Ov chunks =
     (case chunks of [] \<Rightarrow> [] | c # cs \<Rightarrow> c @ concat (map (drop Ov) cs))"

section \<open>Concrete inputs\<close>

text \<open>
  Servers for evaluating the handlers at concrete inputs: one that rejects every request
  with the same error, one that answers every request with the same response.
\<close>

definition rejecting :: "'e \<Rightarrow> 'e sendMessage" where
  "rejecting e userMessage chatId = Inl e"

definition answering :: "ChatResponse \<Rightarrow> 'e sendMessage" where
  "answering r userMessage chatId = Inr r"

definition tokensConsistent :: "ChatInterface \<Rightarrow> bool" where
  "tokensConsistent st \<longleftrightarrow> totalTokens st = assistantTokens (messages st)"

text \<open>A chat in progress: one answered question, held under the identity \<open>chat-1\<close>.\<close>

definition chatInProgress :: ChatInterface where
  "chatInProgress =
     \<lparr>messages =
        [\<lparr>id_m = ''1700000000000'', content = ''What is X?'', role = User,
          created_at = ''2023-11-14T22:13:20.000Z'', tokens_used_m = None\<rparr>,
         \<lparr>id_m = ''1700000000951'', content = ''X is a letter.'', role = Assistant,
          created_at = ''2023-11-14T22:13:20.950Z'', tokens_used_m = Some 42\<rparr>],
      inputMessage = ''  and Y?  '', isLoading = False, currentChatId = Some ''chat-1'',
      sources_st = [''doc1''], totalTokens = 42\<rparr>"

definition noon :: clock where
  "noon = \<lparr>now = 1700000001000, toISOString = ''2023-11-14T22:13:21.000Z''\<rparr>"

definition later :: clock where
  "later = \<lparr>now = 1700000002000, toISOString = ''2023-11-14T22:13:22.000Z''\<rparr>"

definition answerY :: ChatResponse where
  "answerY =
     \<lparr>message = ''Y follows X.'', chat_id = ''chat-1'', sources = [''doc1'', ''doc2''],
      tokens_used = 17\<rparr>"

text \<open>
  A chat whose counter has reached 2^53 with one answered question, and a response that
  uses one token more.
\<close>

definition hugeChat :: ChatInterface where
  "hugeChat =
     \<lparr>messages =
        [\<lparr>id_m = ''1700000000000'', content = ''What is X?'', role = User,
          created_at = ''2023-11-14T22:13:20.000Z'', tokens_used_m = None\<rparr>,
         \<lparr>id_m = ''1700000000951'', content = ''X is a letter.'', role = Assistant,
          created_at = ''2023-11-14T22:13:20.950Z'',
          tokens_used_m = Some 9007199254740992\<rparr>],
      inputMessage = ''and Y?'', isLoading = False, currentChatId = Some ''chat-1'',
      sources_st = [''doc1''], totalTokens = 9007199254740992\<rparr>"

definition oneToken :: ChatResponse where
  "oneToken =
     \<lparr>message = ''Y.'', chat_id = ''chat-1'', sources = [], tokens_used = 1\<rparr>"

text \<open>An idle upload page and two files.\<close>

definition initialUpload :: DocumentUpload where
  "initialUpload =
     \<lparr>activeTab = upload, documents = [], loading = False, uploading = False,
      message_st = None, selectedFile = None, customTitle = [], pasteTitle = [],
      pasteContent = []\<rparr>"

definition notesFile :: File where
  "notesFile = \<lparr>name = ''my.txt.notes.txt'', type = ''text/plain''\<rparr>"

definition pdfFile :: File where
  "pdfFile = \<lparr>name = ''paper.pdf'', type = ''application/pdf''\<rparr>"

section \<open>Helper facts\<close>

lemma trim_blank: "trim ''   '' = []"
  by (simp add: trim_def isWhiteSpace_def)

lemma trim_and_Y: "trim ''  and Y?  '' = ''and Y?''"
  by (simp add: trim_def isWhiteSpace_def)

lemma assistantTokens_append:
  "assistantTokens (xs @ ys) = assistantTokens xs + assistantTokens ys"
  by (simp add: assistantTokens_def)

lemma assistantTokens_userMsg: "assistantTokens [userMsg t s] = 0"
  by (simp add: assistantTokens_def userMsg_def)

lemma assistantTokens_assistantMsg: "assistantTokens [assistantMsg t r] = tokens_used r"
  by (simp add: assistantTokens_def assistantMsg_def)

lemma assistantTokens_errorMsg: "assistantTokens [errorMsg t] = 0"
  by (simp add: assistantTokens_def errorMsg_def)

lemma sendStart_consistent: "tokensConsistent st \<Longrightarrow> tokensConsistent (sendStart t st)"
  by (simp add: tokensConsistent_def sendStart_def assistantTokens_append
      assistantTokens_userMsg)

lemma ulpOf_small: "m < 9007199254740992 \<Longrightarrow> ulpOf m = 1"
  by (subst ulpOf.simps) simp

lemma ulpOf_edge: "ulpOf 9007199254740992 = 2"
  by (subst ulpOf.simps) (simp add: ulpOf_small)

lemma ulpOf_over: "ulpOf 9007199254740993 = 2"
  by (subst ulpOf.simps) (simp add: ulpOf_small)

text \<open>Within the range nothing is rounded.\<close>

lemma roundDouble_exact: "exactRange n \<Longrightarrow> roundDouble n = n"
proof -
  assume range: "exactRange n"
  have "roundDouble n = sgn n * \<bar>n\<bar>"
  proof (cases "\<bar>n\<bar> < 9007199254740992")
    case True
    then show ?thesis
      by (simp add: roundDouble_def Let_def ulpOf_small)
  next
    case False
    with range have edge: "\<bar>n\<bar> = 9007199254740992"
      by (simp add: exactRange_def)
    show ?thesis
      unfolding roundDouble_def Let_def edge ulpOf_edge by simp
  qed
  then show ?thesis
    by (simp add: mult_sgn_abs)
qed

lemma jsAdd_exact: "exactRange (a + b) \<Longrightarrow> jsAdd a b = a + b"
  by (simp add: jsAdd_def roundDouble_exact)

text \<open>Just beyond it, 2^53 + 1 lies halfway between two doubles and goes to the even one.\<close>

lemma jsAdd_rounds: "jsAdd 9007199254740992 1 = 9007199254740992"
  by (simp add: jsAdd_def roundDouble_def Let_def ulpOf_over)

lemma sendSettle_failed_consistent:
  "tokensConsistent st \<Longrightarrow> tokensConsistent (sendSettle held t (Inl e) st)"
  by (simp add: tokensConsistent_def sendSettle_def assistantTokens_append
      assistantTokens_errorMsg)

lemma sendSettle_answered_consistent:
  "tokensConsistent st \<Longrightarrow> exactRange (totalTokens st + tokens_used r) \<Longrightarrow>
     tokensConsistent (sendSettle held t (Inr r) st)"
  by (simp add: tokensConsistent_def sendSettle_def assistantTokens_append
      assistantTokens_assistantMsg jsAdd_exact)

lemma clearChat_consistent: "tokensConsistent st \<Longrightarrow> tokensConsistent (clearChat c st)"
  by (simp add: tokensConsistent_def clearChat_def assistantTokens_def)

lemma handleSendMessage_sent:
  "\<not> blocked st \<Longrightarrow>
     handleSendMessage sendMessage ts te st =
       (sendSettle (currentChatId st) te
          (sendMessage (trim (inputMessage st)) (chatIdArg st)) (sendStart ts st),
        [(trim (inputMessage st), chatIdArg st)])"
  by (simp add: handleSendMessage_def Let_def)

lemma handleSendMessage_blocked:
  "blocked st \<Longrightarrow> handleSendMessage sendMessage ts te st = (st, [])"
  by (simp add: handleSendMessage_def)

text \<open>
  A send made while no session identity is held: the request carries none, and the
  identity of the response becomes the session identity.
\<close>

lemma first_send:
  "\<not> blocked st \<Longrightarrow> \<not> truthy (currentChatId st) \<Longrightarrow>
   sendMessage (trim (inputMessage st)) None = Inr r \<Longrightarrow>
     handleSendMessage sendMessage ts te st =
       (st\<lparr>inputMessage := [],
           messages := messages st @ [userMsg ts (trim (inputMessage st)), assistantMsg te r],
           currentChatId := Some (chat_id r),
           sources_st := sources r,
           totalTokens := jsAdd (totalTokens st) (tokens_used r),
           isLoading := False\<rparr>,
        [(trim (inputMessage st), None)])"
  by (simp add: handleSendMessage_sent chatIdArg_def sendSettle_def sendStart_def)

lemma chatInProgress_not_blocked: "\<not> blocked chatInProgress"
  by (simp add: blocked_def chatInProgress_def trim_and_Y)

lemma chatInProgress_consistent: "tokensConsistent chatInProgress"
  by (simp add: tokensConsistent_def chatInProgress_def assistantTokens_def)

lemma drop_take_drop:
  assumes "Ov \<le> S" and "S \<le> length doc"
  shows "drop Ov (take S doc) @ drop S doc = drop Ov doc"
proof -
  have "drop Ov (take S doc @ drop S doc) = drop Ov (take S doc) @ drop S doc"
    using assms by (simp del: append_take_drop_id)
  then show ?thesis by simp
qed

text \<open>Every window but the first loses its overlap: what is left is the text from \<open>Ov\<close> on.\<close>

lemma windows_drop:
  "Ov < S \<Longrightarrow> Ov \<le> length doc \<Longrightarrow>
     concat (map (drop Ov) (windows S Ov doc)) = drop Ov doc"
proof (induction S Ov doc rule: windows.induct)
  case (1 S Ov doc)
  show ?case
  proof (cases "length doc \<le> S")
    case True
    then show ?thesis by (simp add: windows.simps [of S Ov doc])
  next
    case False
    with "1.prems"
    have ih: "concat (map (drop Ov) (windows S Ov (drop (S - Ov) doc))) =
        drop Ov (drop (S - Ov) doc)"
      by (intro "1.IH") auto
    show ?thesis
      using False "1.prems" ih by (simp add: windows.simps [of S Ov doc] drop_take_drop)
  qed
qed

lemma windows_reassemble: "Ov < S \<Longrightarrow> reassemble Ov (windows S Ov doc) = doc"
proof (cases "length doc \<le> S")
  case True
  then show ?thesis by (simp add: windows.simps [of S Ov doc] reassemble_def)
next
  case False
  assume cfg: "Ov < S"
  with False
  have "concat (map (drop Ov) (windows S Ov (drop (S - Ov) doc))) =
      drop Ov (drop (S - Ov) doc)"
    by (intro windows_drop) auto
  with False cfg show ?thesis
    by (simp add: windows.simps [of S Ov doc] reassemble_def)
qed

lemma windows_bounds:
  "Ov < S \<Longrightarrow> doc \<noteq> [] \<Longrightarrow> c \<in> set (windows S Ov doc) \<Longrightarrow> c \<noteq> [] \<and> length c \<le> S"
proof (induction S Ov doc rule: windows.induct)
  case (1 S Ov doc)
  show ?case
  proof (cases "length doc \<le> S")
    case True
    with "1.prems" show ?thesis by (simp add: windows.simps [of S Ov doc])
  next
    case False
    with "1.prems" have "c = take S doc \<or> c \<in> set (windows S Ov (drop (S - Ov) doc))"
      by (simp add: windows.simps [of S Ov doc])
    then show ?thesis
    proof
      assume "c = take S doc"
      with False "1.prems" show ?thesis by auto
    next
      assume "c \<in> set (windows S Ov (drop (S - Ov) doc))"
      with False "1.prems" show ?thesis by (intro "1.IH") auto
    qed
  qed
qed

text \<open>
  Adjacent windows overlap: the last \<open>Ov\<close> units of a full window are the first \<open>Ov\<close> of
  the next.
\<close>

lemma windows_first: "Ov < S \<Longrightarrow> take Ov (windows S Ov doc ! 0) = take Ov doc"
  by (subst windows.simps) (simp add: min_def)

lemma windows_overlap:
  "Ov < S \<Longrightarrow> Suc i < length (windows S Ov doc) \<Longrightarrow>
     drop (S - Ov) (windows S Ov doc ! i) = take Ov (windows S Ov doc ! Suc i)"
proof (induction S Ov doc arbitrary: i rule: windows.induct)
  case (1 S Ov doc)
  show ?case
  proof (cases "length doc \<le> S")
    case True
    with "1.prems" show ?thesis by (simp add: windows.simps [of S Ov doc])
  next
    case False
    then have w: "windows S Ov doc = take S doc # windows S Ov (drop (S - Ov) doc)"
      using "1.prems"(1) by (subst windows.simps) simp
    show ?thesis
    proof (cases i)
      case 0
      then show ?thesis
        using "1.prems"(1) by (simp add: w windows_first drop_take)
    next
      case (Suc j)
      with "1.prems" w have "Suc j < length (windows S Ov (drop (S - Ov) doc))"
        by simp
      with False "1.prems"(1)
      have "drop (S - Ov) (windows S Ov (drop (S - Ov) doc) ! j) =
          take Ov (windows S Ov (drop (S - Ov) doc) ! Suc j)"
        by (intro "1.IH") auto
      then show ?thesis by (simp add: w Suc)
    qed
  qed
qed

lemma windows_2500:
  assumes "length doc = 2500"
  shows "windows 1000 200 doc = [take 1000 doc, take 1000 (drop 800 doc), drop 1600 doc]"
proof -
  have 1: "windows 1000 200 doc = take 1000 doc # windows 1000 200 (drop 800 doc)"
    using assms by (subst windows.simps) simp
  have 2: "windows 1000 200 (drop 800 doc) =
      take 1000 (drop 800 doc) # windows 1000 200 (drop 1600 doc)"
    using assms by (subst windows.simps) simp
  have 3: "windows 1000 200 (drop 1600 doc) = [drop 1600 doc]"
    using assms by (subst windows.simps) simp
  show ?thesis by (simp only: 1 2 3)
qed

lemma chunk_2500:
  "length doc = 2500 \<Longrightarrow>
     chunk 1000 200 doc = Inr [take 1000 doc, take 1000 (drop 800 doc), drop 1600 doc]"
  by (auto simp: chunk_def windows_2500)

text \<open>
  Whatever the chunker: three chunks of 1000, 1000 and 700 units that overlap by 200 stand
  for a text of 2300 units, not 2500.
\<close>

lemma reassemble_three:
  "length c1 = 1000 \<Longrightarrow> length c2 = 1000 \<Longrightarrow> length c3 = 700 \<Longrightarrow>
     length (reassemble 200 [c1, c2, c3]) = 2300"
  by (simp add: reassemble_def)

section \<open>The send guard\<close>

text \<open>
  C9. When the input is empty or only white space after trimming, or a request is already
  in flight, the send operation hands no request to the API and returns the state as it
  was (message list, session identity and token counter included). When it does send, the
  one request it makes carries the trimmed input, and so does the user message it adds.
\<close>

theorem send_guard:
  "(trim (inputMessage st) = [] \<or> isLoading st \<longrightarrow>
      handleSendMessage sendMessage ts te st = (st, [])) \<and>
   (\<not> (trim (inputMessage st) = [] \<or> isLoading st) \<longrightarrow>
      snd (handleSendMessage sendMessage ts te st) =
        [(trim (inputMessage st), chatIdArg st)] \<and>
      content (messages (fst (handleSendMessage sendMessage ts te st)) ! length (messages st)) =
        trim (inputMessage st))"
  by (auto simp: handleSendMessage_def blocked_def Let_def sendSettle_def sendStart_def
      userMsg_def nth_append split: sum.splits)

theorem send_guard_witness:
  "handleSendMessage (rejecting ()) noon later (initialChat\<lparr>inputMessage := ''   ''\<rparr>) =
     (initialChat\<lparr>inputMessage := ''   ''\<rparr>, []) \<and>
   handleSendMessage (rejecting ()) noon later (chatInProgress\<lparr>isLoading := True\<rparr>) =
     (chatInProgress\<lparr>isLoading := True\<rparr>, []) \<and>
   snd (handleSendMessage (answering answerY :: unit sendMessage) noon later chatInProgress) =
     [(''and Y?'', Some ''chat-1'')]"
  using send_guard [of "initialChat\<lparr>inputMessage := ''   ''\<rparr>" "rejecting ()" noon later]
    send_guard [of "chatInProgress\<lparr>isLoading := True\<rparr>" "rejecting ()" noon later]
    send_guard [of chatInProgress "answering answerY :: unit sendMessage" noon later]
  by (simp add: trim_blank trim_and_Y initialChat_def chatInProgress_def chatIdArg_def
      truthy_def)

section \<open>The token counter\<close>

text \<open>
  C8, as the code has it. The running total-token counter equals the sum of the
  \<open>tokens_used\<close> fields of the assistant messages in the message list as long as the
  token counts are whole numbers and the total stays within the range where numbers add
  exactly (magnitude at most 2^53). This holds in the initial state and is kept by each
  step of sending (before the request, and after it on a failure or on a response whose
  count keeps the total in range), by a whole send, and by clearing the chat. Within the
  range a successful turn adds exactly \<open>response.tokens_used\<close>; a failed or blocked
  request leaves the counter unchanged and a cleared chat has counter 0, whatever the
  range.
\<close>

theorem token_counter:
  "tokensConsistent initialChat \<and>
   (tokensConsistent st \<longrightarrow>
      tokensConsistent (sendStart ts st) \<and>
      tokensConsistent (sendSettle held te (Inl e) st) \<and>
      tokensConsistent (clearChat c st) \<and>
      (exactRange (totalTokens st + tokens_used r) \<longrightarrow>
         tokensConsistent (sendSettle held te (Inr r) st)) \<and>
      (blocked st \<or>
       sendMessage (trim (inputMessage st)) (chatIdArg st) = Inl e \<or>
       sendMessage (trim (inputMessage st)) (chatIdArg st) = Inr r \<and>
       exactRange (totalTokens st + tokens_used r) \<longrightarrow>
         tokensConsistent (fst (handleSendMessage sendMessage ts te st)))) \<and>
   (\<not> blocked st \<and> sendMessage (trim (inputMessage st)) (chatIdArg st) = Inr r \<and>
    exactRange (totalTokens st + tokens_used r) \<longrightarrow>
      totalTokens (fst (handleSendMessage sendMessage ts te st)) =
        totalTokens st + tokens_used r) \<and>
   (\<not> blocked st \<and> sendMessage (trim (inputMessage st)) (chatIdArg st) = Inl e \<longrightarrow>
      totalTokens (fst (handleSendMessage sendMessage ts te st)) = totalTokens st) \<and>
   (blocked st \<longrightarrow>
      totalTokens (fst (handleSendMessage sendMessage ts te st)) = totalTokens st) \<and>
   totalTokens (clearChat True st) = 0"
proof (intro conjI impI)
  show "tokensConsistent initialChat"
    by (simp add: tokensConsistent_def initialChat_def assistantTokens_def)
next
  assume inv: "tokensConsistent st"
  show "tokensConsistent (sendStart ts st)"
    using inv by (rule sendStart_consistent)
  show "tokensConsistent (sendSettle held te (Inl e) st)"
    using inv by (rule sendSettle_failed_consistent)
  show "tokensConsistent (clearChat c st)"
    using inv by (rule clearChat_consistent)
next
  assume "tokensConsistent st" and "exactRange (totalTokens st + tokens_used r)"
  then show "tokensConsistent (sendSettle held te (Inr r) st)"
    by (rule sendSettle_answered_consistent)
next
  assume inv: "tokensConsistent st"
    and how: "blocked st \<or>
       sendMessage (trim (inputMessage st)) (chatIdArg st) = Inl e \<or>
       sendMessage (trim (inputMessage st)) (chatIdArg st) = Inr r \<and>
       exactRange (totalTokens st + tokens_used r)"
  show "tokensConsistent (fst (handleSendMessage sendMessage ts te st))"
  proof (cases "blocked st")
    case True
    then show ?thesis
      using inv by (simp add: handleSendMessage_blocked)
  next
    case False
    have started: "tokensConsistent (sendStart ts st)"
      using inv by (rule sendStart_consistent)
    have same: "totalTokens (sendStart ts st) = totalTokens st"
      by (simp add: sendStart_def)
    from how False
    consider "sendMessage (trim (inputMessage st)) (chatIdArg st) = Inl e"
      | "sendMessage (trim (inputMessage st)) (chatIdArg st) = Inr r"
        and "exactRange (totalTokens st + tokens_used r)"
      by blast
    then show ?thesis
    proof cases
      case 1
      then show ?thesis
        using False started
        by (simp add: handleSendMessage_sent sendSettle_failed_consistent)
    next
      case 2
      then show ?thesis
        using False started same
        by (simp add: handleSendMessage_sent sendSettle_answered_consistent)
    qed
  qed
next
  assume "\<not> blocked st \<and> sendMessage (trim (inputMessage st)) (chatIdArg st) = Inr r \<and>
    exactRange (totalTokens st + tokens_used r)"
  then show "totalTokens (fst (handleSendMessage sendMessage ts te st)) =
      totalTokens st + tokens_used r"
    by (simp add: handleSendMessage_sent sendSettle_def sendStart_def jsAdd_exact)
next
  assume "\<not> blocked st \<and> sendMessage (trim (inputMessage st)) (chatIdArg st) = Inl e"
  then show "totalTokens (fst (handleSendMessage sendMessage ts te st)) = totalTokens st"
    by (simp add: handleSendMessage_sent sendSettle_def sendStart_def)
next
  assume "blocked st"
  then show "totalTokens (fst (handleSendMessage sendMessage ts te st)) = totalTokens st"
    by (simp add: handleSendMessage_blocked)
next
  show "totalTokens (clearChat True st) = 0"
    by (simp add: clearChat_def)
qed

theorem token_counter_witness:
  "tokensConsistent chatInProgress \<and>
   tokensConsistent
     (fst (handleSendMessage (answering answerY :: unit sendMessage) noon later chatInProgress)) \<and>
   totalTokens
     (fst (handleSendMessage (answering answerY :: unit sendMessage) noon later chatInProgress)) =
     59 \<and>
   totalTokens (fst (handleSendMessage (rejecting ()) noon later chatInProgress)) = 42 \<and>
   totalTokens
     (fst (handleSendMessage (rejecting ()) noon later (chatInProgress\<lparr>isLoading := True\<rparr>))) =
     42 \<and>
   tokensConsistent (clearChat True chatInProgress)"
proof -
  have nb: "\<not> blocked chatInProgress"
    by (rule chatInProgress_not_blocked)
  have b: "blocked (chatInProgress\<lparr>isLoading := True\<rparr>)"
    by (simp add: blocked_def)
  have ok: "(answering answerY :: unit sendMessage) (trim (inputMessage chatInProgress))
      (chatIdArg chatInProgress) = Inr answerY"
    by (simp add: answering_def)
  have ko: "rejecting () (trim (inputMessage chatInProgress)) (chatIdArg chatInProgress) =
      Inl ()"
    by (simp add: rejecting_def)
  have t42: "totalTokens chatInProgress = 42"
    by (simp add: chatInProgress_def)
  have t17: "tokens_used answerY = 17"
    by (simp add: answerY_def)
  have range: "exactRange (totalTokens chatInProgress + tokens_used answerY)"
    by (simp add: t42 t17 exactRange_def)
  note good = token_counter [where st = chatInProgress and ts = noon and te = later
      and sendMessage = "answering answerY :: unit sendMessage" and r = answerY
      and held = None and c = True and e = "()"]
  note bad = token_counter [where st = chatInProgress and ts = noon and te = later
      and sendMessage = "rejecting ()" and e = "()" and r = answerY
      and held = None and c = True]
  note busy = token_counter [where st = "chatInProgress\<lparr>isLoading := True\<rparr>" and ts = noon
      and te = later and sendMessage = "rejecting ()" and e = "()" and r = answerY
      and held = None and c = True]
  have 1: "tokensConsistent
      (fst (handleSendMessage (answering answerY :: unit sendMessage) noon later chatInProgress))"
    using good chatInProgress_consistent ok range by blast
  have 2: "totalTokens
      (fst (handleSendMessage (answering answerY :: unit sendMessage) noon later chatInProgress)) =
      totalTokens chatInProgress + tokens_used answerY"
    using good nb ok range by blast
  have 3: "totalTokens (fst (handleSendMessage (rejecting ()) noon later chatInProgress)) =
      totalTokens chatInProgress"
    using bad nb ko by blast
  have 4: "totalTokens
      (fst (handleSendMessage (rejecting ()) noon later (chatInProgress\<lparr>isLoading := True\<rparr>))) =
      totalTokens (chatInProgress\<lparr>isLoading := True\<rparr>)"
    using busy b by blast
  have 5: "tokensConsistent (clearChat True chatInProgress)"
    using good chatInProgress_consistent by blast
  show ?thesis
    using chatInProgress_consistent 1 2 3 4 5 t42 t17 by simp
qed

text \<open>
  The claim as stated fails beyond the range: with the counter at 2^53 and consistent, a
  successful turn of one token leaves the counter at 9007199254740992, while the
  \<open>tokens_used\<close> fields of the assistant messages now sum to 9007199254740993.
\<close>

theorem token_counter_counterexample:
  "tokensConsistent hugeChat \<and>
   totalTokens hugeChat = 9007199254740992 \<and>
   totalTokens
     (fst (handleSendMessage (answering oneToken :: unit sendMessage) noon later hugeChat)) =
     9007199254740992 \<and>
   assistantTokens
     (messages
       (fst (handleSendMessage (answering oneToken :: unit sendMessage) noon later hugeChat))) =
     9007199254740993"
proof -
  have nb: "\<not> blocked hugeChat"
    by (simp add: blocked_def hugeChat_def trim_def isWhiteSpace_def)
  have sent: "fst (handleSendMessage (answering oneToken :: unit sendMessage) noon later hugeChat) =
      sendSettle (currentChatId hugeChat) later (Inr oneToken :: unit + ChatResponse)
        (sendStart noon hugeChat)"
    by (simp add: handleSendMessage_sent [OF nb] answering_def)
  show ?thesis
    unfolding sent
    by (simp add: tokensConsistent_def hugeChat_def oneToken_def sendSettle_def sendStart_def
        assistantTokens_def userMsg_def assistantMsg_def jsAdd_rounds)
qed

section \<open>Choosing a file to upload\<close>

text \<open>
  The parts of C10 that hold: the first file chosen becomes the selected upload exactly
  when its MIME type is \<open>text/plain\<close> or its name ends with \<open>.txt\<close>; any other file leaves
  the selection and the title as they were and sets an error banner.
\<close>

lemma handleFileSelect_accepted:
  "selectedFile (handleFileSelect (file # rest) st) = Some file \<and>
   message_st (handleFileSelect (file # rest) st) = message_st st"
  if "type file = ''text/plain'' \<or> endsWith (name file) ''.txt''"
  using that by (simp add: handleFileSelect_def accepted_def)

lemma handleFileSelect_refused:
  "handleFileSelect (file # rest) st =
     st\<lparr>message_st := Some (error, ''Please select a .txt file'')\<rparr>"
  if "\<not> (type file = ''text/plain'' \<or> endsWith (name file) ''.txt'')"
  using that by (simp add: handleFileSelect_def accepted_def showMessage_def)

lemma handleFileSelect_pdf:
  "handleFileSelect [pdfFile] initialUpload =
     initialUpload\<lparr>message_st := Some (error, ''Please select a .txt file'')\<rparr>"
  by (rule handleFileSelect_refused) (simp add: pdfFile_def endsWith_def)

text \<open>
  C10, the default title. The code removes the first occurrence of \<open>.txt\<close> from the name,
  not the suffix: for the accepted file \<open>my.txt.notes.txt\<close> the title is \<open>my.notes.txt\<close>,
  where the name minus its \<open>.txt\<close> suffix is \<open>my.txt.notes\<close>.
\<close>

theorem default_title_first_occurrence:
  "selectedFile (handleFileSelect [notesFile] initialUpload) = Some notesFile \<and>
   endsWith (name notesFile) ''.txt'' \<and>
   take (length (name notesFile) - length ''.txt'') (name notesFile) = ''my.txt.notes'' \<and>
   customTitle (handleFileSelect [notesFile] initialUpload) = ''my.notes.txt''"
  by (simp add: handleFileSelect_def accepted_def notesFile_def endsWith_def)

section \<open>Chunking a document\<close>

text \<open>
  C6. For every text and every valid configuration (\<open>S > 0\<close>, \<open>0 \<le> O < S\<close>) the chunker
  succeeds, putting its chunks together again with the overlaps removed gives the text
  back exactly, and every chunk is non-empty and at most \<open>S\<close> long.
\<close>

theorem chunk_lossless:
  "0 < S \<and> Ov < S \<longrightarrow>
     (\<exists>chunks. chunk S Ov doc = Inr chunks \<and> reassemble Ov chunks = doc \<and>
        (\<forall>c \<in> set chunks. c \<noteq> [] \<and> length c \<le> S))"
proof
  assume cfg: "0 < S \<and> Ov < S"
  show "\<exists>chunks. chunk S Ov doc = Inr chunks \<and> reassemble Ov chunks = doc \<and>
        (\<forall>c \<in> set chunks. c \<noteq> [] \<and> length c \<le> S)"
  proof (cases "doc = []")
    case True
    then show ?thesis
      using cfg by (simp add: chunk_def reassemble_def)
  next
    case False
    have "chunk S Ov doc = Inr (windows S Ov doc)"
      using cfg False by (simp add: chunk_def)
    moreover have "reassemble Ov (windows S Ov doc) = doc"
      using cfg by (simp add: windows_reassemble)
    moreover have "\<forall>c \<in> set (windows S Ov doc). c \<noteq> [] \<and> length c \<le> S"
      using cfg False windows_bounds by blast
    ultimately show ?thesis by blast
  qed
qed

theorem chunk_lossless_witness:
  "chunk 4 1 ''abcdefghij'' = Inr [''abcd'', ''defg'', ''ghij''] \<and>
   reassemble 1 [''abcd'', ''defg'', ''ghij''] = ''abcdefghij''"
proof -
  have c: "chunk 4 1 ''abcdefghij'' = Inr [''abcd'', ''defg'', ''ghij'']"
    by (simp add: chunk_def windows.simps)
  obtain chunks where "chunk 4 1 ''abcdefghij'' = Inr chunks"
    and "reassemble 1 chunks = ''abcdefghij''"
    using chunk_lossless [of 4 1 "''abcdefghij''"] by auto
  with c show ?thesis by simp
qed

end
